theory Spec2Isabelle
  imports Main
begin

section \<open>Python values, exceptions and text\<close>

text \<open>
  The compression engine (\<^verbatim>\<open>core/compressor.py\<close>) and the file manager
  (\<^verbatim>\<open>core/file_manager.py\<close>) are embedded as functions on an explicit state:
  the engine's attributes, the calls made to the logger, the file system and the clock.
  A Python exception is a value: its class and its text.  Texts are written in ASCII
  (the accents of the source's messages are dropped).
\<close>

datatype exc_class = KeyError | ValueError | IndexError | OSError | BadZipFile

datatype pyexc = PyExc exc_class string

fun exc_text :: "pyexc \<Rightarrow> string" where
  "exc_text (PyExc c m) = m"

fun exc_is :: "exc_class \<Rightarrow> pyexc \<Rightarrow> bool" where
  "exc_is k (PyExc c m) = (c = k)"

datatype pyval = PStr string | PInt int

definition digit_char :: "nat \<Rightarrow> char" where
  "digit_char d = ''0123456789'' ! (d mod 10)"

function dec_nat :: "nat \<Rightarrow> string" where
  "dec_nat n = (if n < 10 then [digit_char n] else dec_nat (n div 10) @ [digit_char (n mod 10)])"
  by pat_completeness auto
termination
  by (relation "measure id") auto

declare dec_nat.simps [simp del]

text \<open>\<^verbatim>\<open>str(i)\<close> of a Python int.\<close>

definition str_int :: "int \<Rightarrow> string" where
  "str_int i = (if i < 0 then CHR ''-'' # dec_nat (nat (- i)) else dec_nat (nat i))"

fun py_str :: "pyval \<Rightarrow> string" where
  "py_str (PStr s) = s"
| "py_str (PInt i) = str_int i"

text \<open>\<^verbatim>\<open>str.lower()\<close> and \<^verbatim>\<open>str.upper()\<close> on ASCII text.\<close>

definition is_upper :: "char \<Rightarrow> bool" where
  "is_upper c = (65 \<le> (of_char c :: nat) \<and> (of_char c :: nat) \<le> 90)"

definition is_lower :: "char \<Rightarrow> bool" where
  "is_lower c = (97 \<le> (of_char c :: nat) \<and> (of_char c :: nat) \<le> 122)"

definition is_digit :: "char \<Rightarrow> bool" where
  "is_digit c = (48 \<le> (of_char c :: nat) \<and> (of_char c :: nat) \<le> 57)"

definition lower :: "string \<Rightarrow> string" where
  "lower s = map (\<lambda>c. if is_upper c then char_of ((of_char c :: nat) + 32) else c) s"

definition upper :: "string \<Rightarrow> string" where
  "upper s = map (\<lambda>c. if is_lower c then char_of ((of_char c :: nat) - 32) else c) s"

section \<open>Paths and the file system\<close>

text \<open>
  A \<^verbatim>\<open>pathlib.Path\<close> is the list of its components below the root; the root is
  \<open>[]\<close>.  \<^verbatim>\<open>Path.suffix\<close> and \<^verbatim>\<open>Path.stem\<close> split the last component at its
  last dot, when that dot is neither the first nor the last character.
\<close>

type_synonym path = "string list"

definition path_name :: "path \<Rightarrow> string" where
  "path_name p = (if p = [] then [] else last p)"

definition path_parent :: "path \<Rightarrow> path" where
  "path_parent p = butlast p"

definition path_join :: "path \<Rightarrow> string \<Rightarrow> path" where
  "path_join p n = p @ [n]"

fun rfind :: "char \<Rightarrow> string \<Rightarrow> nat option" where
  "rfind c [] = None"
| "rfind c (x # xs) =
     (case rfind c xs of
        Some i \<Rightarrow> Some (Suc i)
      | None \<Rightarrow> if x = c then Some 0 else None)"

definition path_suffix :: "path \<Rightarrow> string" where
  "path_suffix p =
     (let n = path_name p in
      case rfind CHR ''.'' n of
        None \<Rightarrow> []
      | Some i \<Rightarrow> if 0 < i \<and> i + 1 < length n then drop i n else [])"

definition path_stem :: "path \<Rightarrow> string" where
  "path_stem p =
     (let n = path_name p in
      case rfind CHR ''.'' n of
        None \<Rightarrow> n
      | Some i \<Rightarrow> if 0 < i \<and> i + 1 < length n then take i n else n)"

text \<open>
  A file is a plain file of some size, or a zip archive: its size on disk and its
  entries (name, uncompressed size, whether the stored checksum matches).
\<close>

datatype zentry = ZEntry (ename: string) (esize: nat) (ecrc_ok: bool)

datatype node = Dir | Plain nat | Archive nat "zentry list"

fun node_size :: "node \<Rightarrow> nat" where
  "node_size Dir = 0"
| "node_size (Plain n) = n"
| "node_size (Archive n es) = n"

type_synonym fs = "(path \<times> node) list"

definition lookup :: "fs \<Rightarrow> path \<Rightarrow> node option" where
  "lookup f p = (if p = [] then Some Dir else map_of f p)"

definition fs_del :: "fs \<Rightarrow> path \<Rightarrow> fs" where
  "fs_del f p = filter (\<lambda>e. fst e \<noteq> p) f"

definition fs_put :: "fs \<Rightarrow> path \<Rightarrow> node \<Rightarrow> fs" where
  "fs_put f p n = (p, n) # fs_del f p"

text \<open>\<^verbatim>\<open>os.rename\<close>: the node at \<open>src\<close>, with everything below it, replaces \<open>dst\<close>.\<close>

definition is_prefix :: "path \<Rightarrow> path \<Rightarrow> bool" where
  "is_prefix p q = (take (length p) q = p)"

definition fs_rename :: "fs \<Rightarrow> path \<Rightarrow> path \<Rightarrow> fs" where
  "fs_rename f src dst =
     map (\<lambda>e. if is_prefix src (fst e) then (dst @ drop (length src) (fst e), snd e) else e)
       (filter (\<lambda>e. is_prefix src (fst e) \<or> \<not> is_prefix dst (fst e)) f)"

section \<open>The state\<close>

datatype level = INFO | WARNING | ERROR | SUCCESS

text \<open>
  The logger is the sink of the calls made to it: \<^verbatim>\<open>log_operation(level, message)\<close>,
  \<^verbatim>\<open>log_file_operation(operation, file_path, status, original_size, compressed_size,
  error_msg)\<close>, and the session calls.
\<close>

datatype log_call =
    LogOperation level string
  | LogFileOperation string path string nat nat "string option"
  | StartSession string
  | UpdateSessionStats nat
  | EndSession

text \<open>
  One record holds the attributes of \<^verbatim>\<open>CompressorEngine\<close> (with its
  \<^verbatim>\<open>ConfigManager\<close>'s naming patterns), of \<^verbatim>\<open>FileManager\<close>, the logger's calls,
  and the world: the file system in the order \<^verbatim>\<open>iterdir\<close> lists it, what the
  operating system permits, and the clock (\<open>clock k fmt\<close> is
  \<^verbatim>\<open>datetime.now().strftime(fmt)\<close> at the \<open>k\<close>-th reading).  The library functions
  whose results the code only passes on are fields too: \<^verbatim>\<open>fnmatch.fnmatch\<close>, the
  rendering of a value under a non-trivial replacement field (attribute or index
  access, conversion, format specification), and the size of the archive that
  \<^verbatim>\<open>zipfile\<close> writes for a file at a compression level.
\<close>

record state =
  is_running :: bool
  is_paused :: bool
  should_stop :: bool
  pause_event :: bool
  file_counter :: int
  naming_patterns :: "(string \<times> string) list"
  backup_operations :: "(path \<times> path) list"
  log_calls :: "log_call list"
  nodes :: fs
  can_read :: "path \<Rightarrow> bool"
  can_write :: "path \<Rightarrow> bool"
  ticks :: nat
  clock :: "nat \<Rightarrow> string \<Rightarrow> string"
  fnmatch :: "string \<Rightarrow> string \<Rightarrow> bool"
  format_value :: "pyval \<Rightarrow> string \<Rightarrow> char option \<Rightarrow> string \<Rightarrow> pyexc + string"
  zip_bytes :: "int \<Rightarrow> path \<Rightarrow> nat"

definition log_operation :: "level \<Rightarrow> string \<Rightarrow> state \<Rightarrow> state" where
  "log_operation l m st = st\<lparr>log_calls := log_calls st @ [LogOperation l m]\<rparr>"

definition log_file_operation ::
  "string \<Rightarrow> path \<Rightarrow> string \<Rightarrow> nat \<Rightarrow> nat \<Rightarrow> string option \<Rightarrow> state \<Rightarrow> state" where
  "log_file_operation operation p status original_size compressed_size error_msg st =
     st\<lparr>log_calls := log_calls st
        @ [LogFileOperation operation p status original_size compressed_size error_msg]\<rparr>"

text \<open>\<^verbatim>\<open>datetime.now()\<close> takes the next reading of the clock.\<close>

definition datetime_now :: "state \<Rightarrow> nat \<times> state" where
  "datetime_now st = (ticks st, st\<lparr>ticks := Suc (ticks st)\<rparr>)"

definition strftime :: "state \<Rightarrow> nat \<Rightarrow> string \<Rightarrow> string" where
  "strftime st now fmt = clock st now fmt"

definition path_exists :: "state \<Rightarrow> path \<Rightarrow> bool" where
  "path_exists st p = (lookup (nodes st) p \<noteq> None)"

definition path_is_dir :: "state \<Rightarrow> path \<Rightarrow> bool" where
  "path_is_dir st p = (lookup (nodes st) p = Some Dir)"

definition path_is_file :: "state \<Rightarrow> path \<Rightarrow> bool" where
  "path_is_file st p = (path_exists st p \<and> \<not> path_is_dir st p)"

text \<open>Paths are printed with \<^verbatim>\<open>/\<close> between the components.\<close>

definition path_str :: "path \<Rightarrow> string" where
  "path_str p = concat (map (\<lambda>n. CHR ''/'' # n) p)"

section \<open>The file manager\<close>

datatype ConflictResolution = RENAME | OVERWRITE | SKIP | ASK

record FileInfo =
  path :: path
  name :: string
  size_bytes :: nat
  extension :: string
  is_readable :: bool
  is_writable :: bool

text \<open>
  \<^verbatim>\<open>FileInfo.from_path\<close>; the modification time and the checksum are not modelled.
  When \<^verbatim>\<open>stat\<close> fails (the file is not there) the record has size 0 and is neither
  readable nor writable.
\<close>

definition from_path :: "state \<Rightarrow> path \<Rightarrow> FileInfo" where
  "from_path st p =
     (case lookup (nodes st) p of
        Some n \<Rightarrow> \<lparr>path = p, name = path_name p, size_bytes = node_size n,
                   extension = lower (path_suffix p),
                   is_readable = can_read st p, is_writable = can_write st p\<rparr>
      | None \<Rightarrow> \<lparr>path = p, name = path_name p, size_bytes = 0,
                 extension = lower (path_suffix p),
                 is_readable = False, is_writable = False\<rparr>)"

subsection \<open>\<^verbatim>\<open>_generate_unique_name\<close> and \<^verbatim>\<open>_resolve_conflict\<close>\<close>

definition candidate :: "path \<Rightarrow> nat \<Rightarrow> path" where
  "candidate file_path counter =
     path_join (path_parent file_path)
       (path_stem file_path @ ''_'' @ dec_nat counter @ path_suffix file_path)"

definition timestamp_candidate :: "path \<Rightarrow> string \<Rightarrow> path" where
  "timestamp_candidate file_path timestamp =
     path_join (path_parent file_path)
       (path_stem file_path @ ''_'' @ timestamp @ path_suffix file_path)"

function unique_loop :: "path \<Rightarrow> nat \<Rightarrow> state \<Rightarrow> path \<times> state" where
  "unique_loop file_path counter st =
     (if \<not> path_exists st (candidate file_path counter) then (candidate file_path counter, st)
      else if counter + 1 > 9999 then
        (let (now, st') = datetime_now st
         in (timestamp_candidate file_path (strftime st now ''%Y%m%d_%H%M%S''), st'))
      else unique_loop file_path (counter + 1) st)"
  by pat_completeness auto
termination
  by (relation "measure (\<lambda>(p, c, st). 10000 - c)") auto

declare unique_loop.simps [simp del]

definition generate_unique_name :: "path \<Rightarrow> state \<Rightarrow> path \<times> state" where
  "generate_unique_name file_path st = unique_loop file_path 1 st"

fun resolve_conflict :: "path \<Rightarrow> ConflictResolution \<Rightarrow> state \<Rightarrow> path option \<times> state" where
  "resolve_conflict destination OVERWRITE st = (Some destination, st)"
| "resolve_conflict destination SKIP st = (None, st)"
| "resolve_conflict destination RENAME st =
     (let (p, st') = generate_unique_name destination st in (Some p, st'))"
| "resolve_conflict destination ASK st =
     (let (p, st') = generate_unique_name destination st in (Some p, st'))"

subsection \<open>\<^verbatim>\<open>create_backup_folder\<close> and \<^verbatim>\<open>move_to_backup\<close>\<close>

text \<open>
  \<^verbatim>\<open>Path.mkdir(parents=True, exist_ok=True)\<close>: the missing ancestors are created
  from the top; the directories made before a failure stay.
\<close>

function mkdir_parents :: "path \<Rightarrow> state \<Rightarrow> pyexc option \<times> state" where
  "mkdir_parents p st =
     (case lookup (nodes st) p of
        Some Dir \<Rightarrow> (None, st)
      | Some (Plain n) \<Rightarrow> (Some (PyExc OSError ''File exists''), st)
      | Some (Archive n es) \<Rightarrow> (Some (PyExc OSError ''File exists''), st)
      | None \<Rightarrow>
          (case mkdir_parents (butlast p) st of
             (Some e, st') \<Rightarrow> (Some e, st')
           | (None, st') \<Rightarrow>
               if can_write st' p then (None, st'\<lparr>nodes := fs_put (nodes st') p Dir\<rparr>)
               else (Some (PyExc OSError ''Permission denied''), st')))"
  by pat_completeness auto
termination
  by (relation "measure (\<lambda>(p, st). length p)") (auto simp: lookup_def split: if_splits)

declare mkdir_parents.simps [simp del]

definition create_backup_folder :: "path \<Rightarrow> state \<Rightarrow> bool \<times> state" where
  "create_backup_folder backup_path st =
     (case mkdir_parents backup_path st of
        (Some e, st') \<Rightarrow>
          (False, log_operation ERROR (''Error al crear carpeta de respaldo: '' @ exc_text e) st')
      | (None, st') \<Rightarrow>
          if \<not> can_write st' backup_path then
            (False, log_operation ERROR
                      (''Sin permisos de escritura en: '' @ path_str backup_path) st')
          else
            (True, log_operation INFO
                     (''Carpeta de respaldo lista: '' @ path_str backup_path) st'))"

text \<open>
  \<^verbatim>\<open>shutil.move\<close>: a destination that is a directory receives the file under its
  own name, unless that name is taken; the rename needs the permission to change both
  places and an existing directory to move into.
\<close>

definition shutil_move :: "path \<Rightarrow> path \<Rightarrow> state \<Rightarrow> pyexc option \<times> state" where
  "shutil_move src dst st =
     (let real_dst = (if path_is_dir st dst then path_join dst (path_name src) else dst) in
      if path_is_dir st dst \<and> path_exists st real_dst then
        (Some (PyExc OSError (''Destination path already exists: '' @ path_str real_dst)), st)
      else if \<not> path_exists st src then
        (Some (PyExc OSError (''No such file or directory: '' @ path_str src)), st)
      else if \<not> path_is_dir st (path_parent real_dst) then
        (Some (PyExc OSError (''No such file or directory: '' @ path_str real_dst)), st)
      else if \<not> (can_write st src \<and> can_write st real_dst) then
        (Some (PyExc OSError (''Permission denied: '' @ path_str real_dst)), st)
      else (None, st\<lparr>nodes := fs_rename (nodes st) src real_dst\<rparr>))"

definition move_to_backup ::
  "path \<Rightarrow> path \<Rightarrow> ConflictResolution \<Rightarrow> state \<Rightarrow> path option \<times> state" where
  "move_to_backup file_path backup_folder conflict_resolution st =
     (if \<not> path_exists st file_path then
        (None, log_operation ERROR (''Archivo no existe: '' @ path_str file_path) st)
      else
        (case create_backup_folder backup_folder st of
           (False, st1) \<Rightarrow> (None, st1)
         | (True, st1) \<Rightarrow>
             (let destination = path_join backup_folder (path_name file_path);
                  (resolved, st2) =
                    (if path_exists st1 destination
                     then resolve_conflict destination conflict_resolution st1
                     else (Some destination, st1))
              in case resolved of
                   None \<Rightarrow>
                     (None, log_operation WARNING
                        (''Operacion cancelada por conflicto: '' @ path_name file_path) st2)
                 | Some dest \<Rightarrow>
                     (case shutil_move file_path dest st2 of
                        (Some e, st3) \<Rightarrow>
                          (None, log_operation ERROR
                             (''Error al mover archivo '' @ path_name file_path @ '': ''
                                @ exc_text e) st3)
                      | (None, st3) \<Rightarrow>
                          (Some dest,
                           log_operation SUCCESS
                             (''Archivo movido a respaldo: '' @ path_name file_path)
                             (st3\<lparr>backup_operations :=
                                    backup_operations st3 @ [(file_path, dest)]\<rparr>))))))"

subsection \<open>\<^verbatim>\<open>scan_directory\<close>\<close>

definition matches_filters :: "state \<Rightarrow> string \<Rightarrow> string list \<Rightarrow> bool" where
  "matches_filters st filename filters =
     (filters = [] \<or> ''*'' \<in> set filters
       \<or> list_ex (\<lambda>pattern. fnmatch st (lower filename) (lower pattern)) filters)"

text \<open>\<^verbatim>\<open>iterdir\<close>: the names directly below a directory, in the order of the file system.\<close>

definition children :: "fs \<Rightarrow> path \<Rightarrow> string list" where
  "children f p = remdups (map (\<lambda>e. last (fst e)) (filter (\<lambda>e. fst e \<noteq> [] \<and> butlast (fst e) = p) f))"

text \<open>
  The inner \<^verbatim>\<open>process_files\<close> of \<^verbatim>\<open>scan_directory\<close>.  The scan only reads the
  file system, so the state is an argument and the calls to the logger are collected
  beside the files, in the order they are made; \<^verbatim>\<open>scan_directory\<close> hands them to the
  log.  The first argument bounds the depth of the recursion into subdirectories;
  \<^verbatim>\<open>scan_directory\<close> starts it above the length of the longest stored path, which no
  descent reaches.  A directory that may not be read raises \<^verbatim>\<open>PermissionError\<close> in
  \<^verbatim>\<open>iterdir\<close>, which is logged.
\<close>

fun process_files ::
  "nat \<Rightarrow> state \<Rightarrow> bool \<Rightarrow> string list \<Rightarrow> path \<Rightarrow> FileInfo list \<times> log_call list
     \<Rightarrow> FileInfo list \<times> log_call list" where
  "process_files 0 st include_subfolders filters p acc = acc"
| "process_files (Suc d) st include_subfolders filters p acc =
     (if \<not> can_read st p then
        (fst acc, snd acc @ [LogOperation WARNING (''Sin permisos para acceder a: '' @ path_str p)])
      else
        foldl (\<lambda>a n.
            (let item = path_join p n in
             if path_is_file st item then
               (if matches_filters st n filters then
                  (let file_info = from_path st item in
                   if is_readable file_info then (fst a @ [file_info], snd a)
                   else (fst a, snd a @ [LogOperation WARNING (''Archivo no legible: '' @ n)]))
                else a)
             else if path_is_dir st item \<and> include_subfolders then
               process_files d st include_subfolders filters item a
             else a))
          acc (children (nodes st) p))"

definition max_depth :: "fs \<Rightarrow> nat" where
  "max_depth f = foldr (\<lambda>e m. max (length (fst e)) m) f 0"

definition scan_files :: "state \<Rightarrow> path \<Rightarrow> bool \<Rightarrow> string list \<Rightarrow> FileInfo list \<times> log_call list" where
  "scan_files st directory include_subfolders file_filters =
     process_files (Suc (max_depth (nodes st))) st include_subfolders
       (if file_filters = [] then [''*''] else file_filters) directory ([], [])"

definition scan_directory ::
  "path \<Rightarrow> bool \<Rightarrow> string list \<Rightarrow> state \<Rightarrow> FileInfo list \<times> state" where
  "scan_directory directory include_subfolders file_filters st =
     (if \<not> path_exists st directory then
        ([], log_operation ERROR (''El directorio no existe: '' @ path_str directory) st)
      else if \<not> path_is_dir st directory then
        ([], log_operation ERROR (''La ruta no es un directorio: '' @ path_str directory) st)
      else
        (let (files, calls) = scan_files st directory include_subfolders file_filters
         in (files,
             log_operation INFO
               (''Encontrados '' @ dec_nat (length files) @ '' archivos en '' @ path_str directory)
               (st\<lparr>log_calls := log_calls st @ calls\<rparr>))))"

text \<open>\<^verbatim>\<open>validate_permissions(directory)['readable']\<close>.\<close>

definition readable :: "state \<Rightarrow> path \<Rightarrow> bool" where
  "readable st directory = (path_exists st directory \<and> can_read st directory)"

section \<open>\<^verbatim>\<open>str.format\<close>\<close>

text \<open>
  \<^verbatim>\<open>pattern.format(**variables)\<close> reads the pattern from left to right.  Text is
  copied, \<^verbatim>\<open>{{\<close> and \<^verbatim>\<open>}}\<close> stand for one brace, and \<^verbatim>\<open>{name!c:spec}\<close> is a
  replacement field.  The scanner follows CPython's: a \<^verbatim>\<open>[\<close> in a field name hides
  everything up to the next \<^verbatim>\<open>]\<close>, the format specification runs to the brace that
  closes the field and may hold fields of its own.  Every defect of the markup is a
  \<^verbatim>\<open>ValueError\<close>.  The tokens come out in order and end at the first defect, so that a
  field before it is rendered (and may raise) first, as in Python.
\<close>

datatype token = TLit string | TField string "char option" string bool | TBad pyexc

datatype pmode =
    MText string
  | MOpen string
  | MClose string
  | MName string
  | MBracket string
  | MConv string
  | MConvEnd string char
  | MSpec string "char option" string nat bool
  | MStop

definition bad :: "string \<Rightarrow> token" where
  "bad m = TBad (PyExc ValueError m)"

definition name_step :: "string \<Rightarrow> char \<Rightarrow> token list \<times> pmode" where
  "name_step acc c =
     (if c = CHR ''{'' then ([bad ''unexpected { in field name''], MStop)
      else if c = CHR ''['' then ([], MBracket (acc @ [c]))
      else if c = CHR ''}'' then ([TField acc None [] False], MText [])
      else if c = CHR '':'' then ([], MSpec acc None [] 1 False)
      else if c = CHR ''!'' then ([], MConv acc)
      else ([], MName (acc @ [c])))"

fun step :: "pmode \<Rightarrow> char \<Rightarrow> token list \<times> pmode" where
  "step (MText acc) c =
     (if c = CHR ''{'' then ([], MOpen acc)
      else if c = CHR ''}'' then ([], MClose acc)
      else ([], MText (acc @ [c])))"
| "step (MOpen acc) c =
     (if c = CHR ''{'' then ([], MText (acc @ [c]))
      else (TLit acc # fst (name_step [] c), snd (name_step [] c)))"
| "step (MClose acc) c =
     (if c = CHR ''}'' then ([], MText (acc @ [c]))
      else ([bad ''Single } encountered in format string''], MStop))"
| "step (MName acc) c = name_step acc c"
| "step (MBracket acc) c =
     (if c = CHR '']'' then ([], MName (acc @ [c])) else ([], MBracket (acc @ [c])))"
| "step (MConv field_name) c = ([], MConvEnd field_name c)"
| "step (MConvEnd field_name conv) c =
     (if c = CHR ''}'' then ([TField field_name (Some conv) [] False], MText [])
      else if c = CHR '':'' then ([], MSpec field_name (Some conv) [] 1 False)
      else ([bad ''expected : after conversion specifier''], MStop))"
| "step (MSpec field_name conv acc count expand) c =
     (if c = CHR ''{'' then ([], MSpec field_name conv (acc @ [c]) (count + 1) True)
      else if c = CHR ''}'' then
        (if count = 1 then ([TField field_name conv acc expand], MText [])
         else ([], MSpec field_name conv (acc @ [c]) (count - 1) expand))
      else ([], MSpec field_name conv (acc @ [c]) count expand))"
| "step MStop c = ([], MStop)"

fun finish :: "pmode \<Rightarrow> token list" where
  "finish (MText acc) = [TLit acc]"
| "finish (MOpen acc) = [bad ''Single { encountered in format string'']"
| "finish (MClose acc) = [bad ''Single } encountered in format string'']"
| "finish (MName acc) = [bad ''expected } before end of string'']"
| "finish (MBracket acc) = [bad ''expected } before end of string'']"
| "finish (MConv field_name) = [bad ''end of string while looking for conversion specifier'']"
| "finish (MConvEnd field_name conv) = [bad ''unmatched { in format spec'']"
| "finish (MSpec field_name conv acc count expand) = [bad ''unmatched { in format spec'']"
| "finish MStop = []"

fun lex :: "pmode \<Rightarrow> string \<Rightarrow> token list" where
  "lex m [] = finish m"
| "lex m (c # cs) = fst (step m c) @ lex (snd (step m c)) cs"

text \<open>
  A field name is the argument's name followed by attribute and index accesses.  An
  empty or numeric name asks for a positional argument, and the call has none
  (\<^verbatim>\<open>IndexError\<close>; a number too long for an index is a \<^verbatim>\<open>ValueError\<close>).  A name that
  is not a key of \<^verbatim>\<open>variables\<close> raises \<^verbatim>\<open>KeyError\<close>, whose text is the quoted key.
\<close>

definition digits_value :: "string \<Rightarrow> nat" where
  "digits_value s = foldl (\<lambda>a c. 10 * a + ((of_char c :: nat) - 48)) 0 s"

definition get_field_object :: "(string \<times> pyval) list \<Rightarrow> string \<Rightarrow> pyexc + pyval" where
  "get_field_object variables first =
     (if first = [] then
        Inl (PyExc IndexError ''Replacement index 0 out of range for positional args tuple'')
      else if list_all is_digit first then
        (if digits_value first > 2 ^ 63 - 1 then
           Inl (PyExc ValueError ''Too many decimal digits in format string'')
         else Inl (PyExc IndexError (''Replacement index '' @ first
                     @ '' out of range for positional args tuple'')))
      else case map_of variables first of
             None \<Rightarrow> Inl (PyExc KeyError ([CHR 0x27] @ first @ [CHR 0x27]))
           | Some v \<Rightarrow> Inr v)"

text \<open>
  One field: look the argument up, expand the fields of the format specification,
  and render.  A field that is only a name is \<^verbatim>\<open>str(value)\<close>; the rest is the
  library's (\<open>format_value\<close> of the state, passed as \<open>fv\<close>).
\<close>

definition render_field ::
  "(pyval \<Rightarrow> string \<Rightarrow> char option \<Rightarrow> string \<Rightarrow> pyexc + string) \<Rightarrow> (string \<Rightarrow> pyexc + string)
     \<Rightarrow> (string \<times> pyval) list \<Rightarrow> string \<Rightarrow> char option \<Rightarrow> string \<Rightarrow> bool \<Rightarrow> pyexc + string" where
  "render_field fv expand_spec variables field_name conv spec expand =
     (let first = takeWhile (\<lambda>c. c \<noteq> CHR ''.'' \<and> c \<noteq> CHR ''['') field_name;
          accessors = dropWhile (\<lambda>c. c \<noteq> CHR ''.'' \<and> c \<noteq> CHR ''['') field_name
      in case get_field_object variables first of
           Inl e \<Rightarrow> Inl e
         | Inr v \<Rightarrow>
             (case (if expand then expand_spec spec else Inr spec) of
                Inl e \<Rightarrow> Inl e
              | Inr actual_spec \<Rightarrow>
                  if accessors = [] \<and> conv = None \<and> actual_spec = [] then Inr (py_str v)
                  else fv v accessors conv actual_spec))"

fun render_tokens ::
  "(pyval \<Rightarrow> string \<Rightarrow> char option \<Rightarrow> string \<Rightarrow> pyexc + string) \<Rightarrow> (string \<Rightarrow> pyexc + string)
     \<Rightarrow> (string \<times> pyval) list \<Rightarrow> token list \<Rightarrow> pyexc + string" where
  "render_tokens fv expand_spec variables [] = Inr []"
| "render_tokens fv expand_spec variables (TLit s # ts) =
     (case render_tokens fv expand_spec variables ts of
        Inl e \<Rightarrow> Inl e
      | Inr r \<Rightarrow> Inr (s @ r))"
| "render_tokens fv expand_spec variables (TBad e # ts) = Inl e"
| "render_tokens fv expand_spec variables (TField field_name conv spec expand # ts) =
     (case render_field fv expand_spec variables field_name conv spec expand of
        Inl e \<Rightarrow> Inl e
      | Inr r \<Rightarrow>
          (case render_tokens fv expand_spec variables ts of
             Inl e \<Rightarrow> Inl e
           | Inr r' \<Rightarrow> Inr (r @ r')))"

text \<open>\<^verbatim>\<open>build_string\<close> with its recursion depth; \<^verbatim>\<open>str.format\<close> starts it at 2.\<close>

fun build_string ::
  "nat \<Rightarrow> (pyval \<Rightarrow> string \<Rightarrow> char option \<Rightarrow> string \<Rightarrow> pyexc + string)
     \<Rightarrow> (string \<times> pyval) list \<Rightarrow> string \<Rightarrow> pyexc + string" where
  "build_string 0 fv variables s = Inl (PyExc ValueError ''Max string recursion exceeded'')"
| "build_string (Suc d) fv variables s =
     render_tokens fv (\<lambda>spec. build_string d fv variables spec) variables (lex (MText []) s)"

definition py_format ::
  "(pyval \<Rightarrow> string \<Rightarrow> char option \<Rightarrow> string \<Rightarrow> pyexc + string)
     \<Rightarrow> string \<Rightarrow> (string \<times> pyval) list \<Rightarrow> pyexc + string" where
  "py_format fv pattern variables = build_string 2 fv variables pattern"

section \<open>The compression engine\<close>

record CompressionConfig =
  source_folder :: path
  backup_folder :: path
  naming_pattern :: string
  include_subfolders :: bool
  file_filters :: "string list"
  compression_level :: int
  conflict_resolution :: string
  verify_integrity :: bool
  max_workers :: int
  custom_pattern :: string

text \<open>The result of a run; the execution time (a float) is not modelled.\<close>

record CompressionResult =
  success :: bool
  processed_files :: nat
  failed_files :: nat
  skipped_files :: nat
  total_size_saved :: int
  errors :: "string list"
  session_id :: string

definition total_files :: "CompressionResult \<Rightarrow> nat" where
  "total_files r = processed_files r + failed_files r + skipped_files r"

text \<open>\<^verbatim>\<open>ConflictResolution(value)\<close>: the enum's constructor raises on an unknown value.\<close>

definition ConflictResolution_of :: "string \<Rightarrow> pyexc + ConflictResolution" where
  "ConflictResolution_of v =
     (if v = ''rename'' then Inr RENAME
      else if v = ''overwrite'' then Inr OVERWRITE
      else if v = ''skip'' then Inr SKIP
      else if v = ''ask'' then Inr ASK
      else Inl (PyExc ValueError ([CHR 0x27] @ v @ [CHR 0x27]
                  @ '' is not a valid ConflictResolution'')))"

subsection \<open>\<^verbatim>\<open>_extract_invoice_number\<close>\<close>

text \<open>
  The five regular expressions, tried in order on the upper-cased name; the first
  three are anchored at the start, the last two are searched from left to right.
\<close>

definition letters_digits :: "nat \<Rightarrow> string \<Rightarrow> string option" where
  "letters_digits k s =
     (if k \<le> length s \<and> list_all is_upper (take k s)
         \<and> 3 \<le> length (takeWhile is_digit (drop k s))
      then Some (take k s @ take 6 (takeWhile is_digit (drop k s))) else None)"

definition invoice1 :: "string \<Rightarrow> string option" where
  "invoice1 s = (case letters_digits 4 s of Some m \<Rightarrow> Some m | None \<Rightarrow> letters_digits 3 s)"

definition invoice2 :: "string \<Rightarrow> string option" where
  "invoice2 s =
     (if takeWhile is_upper s \<noteq> [] \<and> takeWhile is_digit (dropWhile is_upper s) \<noteq> []
      then Some (takeWhile is_upper s @ takeWhile is_digit (dropWhile is_upper s)) else None)"

definition invoice3 :: "string \<Rightarrow> string option" where
  "invoice3 s =
     (if 3 \<le> length (takeWhile is_digit s) then Some (take 6 (takeWhile is_digit s)) else None)"

definition letters_dash_digits :: "nat \<Rightarrow> string \<Rightarrow> string option" where
  "letters_dash_digits k s =
     (if k < length s \<and> list_all is_upper (take k s) \<and> s ! k = CHR ''-''
         \<and> 3 \<le> length (takeWhile is_digit (drop (k + 1) s))
      then Some (take (k + 1) s @ take 6 (takeWhile is_digit (drop (k + 1) s))) else None)"

definition invoice4_at :: "string \<Rightarrow> string option" where
  "invoice4_at s =
     (case letters_dash_digits 4 s of
        Some m \<Rightarrow> Some m
      | None \<Rightarrow> (case letters_dash_digits 3 s of
                   Some m \<Rightarrow> Some m
                 | None \<Rightarrow> letters_dash_digits 2 s))"

definition invoice5_at :: "string \<Rightarrow> string option" where
  "invoice5_at s =
     (let ls = takeWhile is_upper s; r = dropWhile is_upper s in
      if ls \<noteq> [] \<and> r \<noteq> [] \<and> hd r = CHR ''_'' \<and> takeWhile is_digit (tl r) \<noteq> []
      then Some (ls @ ''_'' @ takeWhile is_digit (tl r)) else None)"

fun re_search :: "(string \<Rightarrow> string option) \<Rightarrow> string \<Rightarrow> string option" where
  "re_search at [] = at []"
| "re_search at (c # cs) = (case at (c # cs) of Some m \<Rightarrow> Some m | None \<Rightarrow> re_search at cs)"

definition extract_invoice_number :: "string \<Rightarrow> string" where
  "extract_invoice_number filename =
     (let u = upper filename in
      case invoice1 u of Some m \<Rightarrow> m | None \<Rightarrow>
      (case invoice2 u of Some m \<Rightarrow> m | None \<Rightarrow>
      (case invoice3 u of Some m \<Rightarrow> m | None \<Rightarrow>
      (case re_search invoice4_at u of Some m \<Rightarrow> m | None \<Rightarrow>
      (case re_search invoice5_at u of Some m \<Rightarrow> m | None \<Rightarrow> filename)))))"

subsection \<open>\<^verbatim>\<open>_validate_config\<close>\<close>

definition validate_config :: "state \<Rightarrow> CompressionConfig \<Rightarrow> string list" where
  "validate_config st config =
     (if \<not> path_exists st (source_folder config) then
        [''Carpeta origen no existe: '' @ path_str (source_folder config)]
      else if \<not> path_is_dir st (source_folder config) then
        [''La ruta origen no es un directorio: '' @ path_str (source_folder config)]
      else [])
     @ (if \<not> readable st (source_folder config) then
          [''Sin permisos de lectura en carpeta origen''] else [])
     @ (if \<not> (0 \<le> compression_level config \<and> compression_level config \<le> 9) then
          [''Nivel de compresion debe estar entre 0 y 9''] else [])
     @ (if map_of (naming_patterns st) (naming_pattern config) = None
           \<and> naming_pattern config \<noteq> ''personalizado'' then
          [''Patron de nomenclatura invalido: '' @ naming_pattern config] else [])"

subsection \<open>\<^verbatim>\<open>_generate_zip_name\<close>\<close>

text \<open>
  The default of \<^verbatim>\<open>patterns.get(config.naming_pattern, patterns['fecha_archivo'])\<close> is
  evaluated before the call, so a pattern table without \<^verbatim>\<open>fecha_archivo\<close> raises
  \<^verbatim>\<open>KeyError\<close> outside the \<^verbatim>\<open>try\<close>.
\<close>

definition select_pattern :: "state \<Rightarrow> CompressionConfig \<Rightarrow> pyexc + string" where
  "select_pattern st config =
     (if naming_pattern config = ''personalizado'' \<and> custom_pattern config \<noteq> [] then
        Inr (custom_pattern config)
      else case map_of (naming_patterns st) ''fecha_archivo'' of
             None \<Rightarrow> Inl (PyExc KeyError ([CHR 0x27] @ ''fecha_archivo'' @ [CHR 0x27]))
           | Some fallback \<Rightarrow>
               (case map_of (naming_patterns st) (naming_pattern config) of
                  None \<Rightarrow> Inr fallback
                | Some pattern \<Rightarrow> Inr pattern))"

definition variables ::
  "(nat \<Rightarrow> string \<Rightarrow> string) \<Rightarrow> nat \<Rightarrow> int \<Rightarrow> FileInfo \<Rightarrow> (string \<times> pyval) list" where
  "variables clk now counter file_info =
     [(''fecha'', PStr (clk now ''%Y-%m-%d'')),
      (''fecha_corta'', PStr (clk now ''%Y%m%d'')),
      (''hora'', PStr (clk now ''%H-%M-%S'')),
      (''timestamp'', PStr (clk now ''%Y%m%d_%H%M%S'')),
      (''nombre_original'', PStr (path_stem (path file_info))),
      (''contador'', PInt counter),
      (''extension_original'', PStr (extension file_info)),
      (''numero_factura'', PStr (extract_invoice_number (path_stem (path file_info))))]"

definition generate_zip_name ::
  "FileInfo \<Rightarrow> CompressionConfig \<Rightarrow> state \<Rightarrow> (pyexc + string) \<times> state" where
  "generate_zip_name file_info config st =
     (case select_pattern st config of
        Inl e \<Rightarrow> (Inl e, st)
      | Inr pattern \<Rightarrow>
          (let (now, st1) = datetime_now st in
           case py_format (format_value st1) pattern
                  (variables (clock st1) now (file_counter st1) file_info) of
             Inr zip_name \<Rightarrow>
               (Inr (zip_name @ ''.zip''), st1\<lparr>file_counter := file_counter st1 + 1\<rparr>)
           | Inl e \<Rightarrow>
               if exc_is KeyError e then
                 (Inr (strftime st1 now ''%Y-%m-%d'' @ ''_'' @ path_stem (path file_info)
                       @ ''.zip''),
                  log_operation WARNING (''Error en patron de nomenclatura: '' @ exc_text e) st1)
               else (Inl e, st1)))"

subsection \<open>Writing and verifying the archive\<close>

text \<open>
  \<^verbatim>\<open>with zipfile.ZipFile(zip_path, 'w', ZIP_DEFLATED, compresslevel=level) as zipf:
  zipf.write(src, arcname)\<close>.  Opening creates or truncates the file at \<open>zip_path\<close>;
  the source is read after that.  When the write raises, closing leaves an archive
  without entries (22 bytes).  A source that is a directory gives an entry named
  \<^verbatim>\<open>arcname/\<close>.  \<open>arcname\<close> is taken as the library stores a plain file name.
\<close>

definition zip_write :: "path \<Rightarrow> int \<Rightarrow> path \<Rightarrow> string \<Rightarrow> state \<Rightarrow> pyexc option \<times> state" where
  "zip_write zip_path level src arcname st =
     (if path_is_dir st zip_path then
        (Some (PyExc OSError (''Is a directory: '' @ path_str zip_path)), st)
      else if \<not> path_is_dir st (path_parent zip_path) then
        (Some (PyExc OSError (''No such file or directory: '' @ path_str zip_path)), st)
      else if \<not> can_write st zip_path then
        (Some (PyExc OSError (''Permission denied: '' @ path_str zip_path)), st)
      else
        (let opened = fs_put (nodes st) zip_path (Archive 0 []);
             failed = st\<lparr>nodes := fs_put (nodes st) zip_path (Archive 22 [])\<rparr>
         in case lookup opened src of
              None \<Rightarrow> (Some (PyExc OSError (''No such file or directory: '' @ path_str src)), failed)
            | Some Dir \<Rightarrow>
                (None, st\<lparr>nodes := fs_put (nodes st) zip_path
                         (Archive (zip_bytes st level src)
                            [ZEntry (arcname @ ''/'') 0 True])\<rparr>)
            | Some n \<Rightarrow>
                if \<not> can_read st src then
                  (Some (PyExc OSError (''Permission denied: '' @ path_str src)), failed)
                else if \<not> (- 1 \<le> level \<and> level \<le> 9) then
                  (Some (PyExc ValueError ''Bad compression level''), failed)
                else
                  (None, st\<lparr>nodes := fs_put (nodes st) zip_path
                           (Archive (zip_bytes st level src)
                              [ZEntry arcname (node_size n) True])\<rparr>)))"

text \<open>\<^verbatim>\<open>ZipFile.testzip\<close>: the name of the first entry whose checksum fails.\<close>

definition testzip :: "zentry list \<Rightarrow> string option" where
  "testzip es = (case filter (\<lambda>e. \<not> ecrc_ok e) es of [] \<Rightarrow> None | e # _ \<Rightarrow> Some (ename e))"

text \<open>\<^verbatim>\<open>ZipFile.getinfo\<close>: of several entries with one name the last is kept.\<close>

definition getinfo :: "zentry list \<Rightarrow> string \<Rightarrow> zentry" where
  "getinfo es n = last (filter (\<lambda>e. ename e = n) es)"

definition verify_zip_integrity :: "state \<Rightarrow> path \<Rightarrow> FileInfo \<Rightarrow> bool" where
  "verify_zip_integrity st zip_path original_file =
     (case lookup (nodes st) zip_path of
        Some (Archive b es) \<Rightarrow>
          if \<not> can_read st zip_path then False
          else if (case testzip es of None \<Rightarrow> False | Some bad_file \<Rightarrow> bad_file \<noteq> []) then False
          else if name original_file \<notin> set (map ename es) then False
          else if esize (getinfo es (name original_file)) \<noteq> size_bytes original_file then False
          else True
      | _ \<Rightarrow> False)"

definition unlink :: "path \<Rightarrow> state \<Rightarrow> pyexc option \<times> state" where
  "unlink p st =
     (if \<not> path_is_file st p then
        (Some (PyExc OSError (''No such file: '' @ path_str p)), st)
      else if \<not> can_write st p then
        (Some (PyExc OSError (''Permission denied: '' @ path_str p)), st)
      else (None, st\<lparr>nodes := fs_del (nodes st) p\<rparr>))"

subsection \<open>\<^verbatim>\<open>_compress_single_file\<close>\<close>

text \<open>The dictionary that \<^verbatim>\<open>_compress_single_file\<close> returns, by its \<^verbatim>\<open>status\<close>.\<close>

datatype file_result =
    StatusSuccess path nat nat int
  | StatusError string
  | StatusSkip string

text \<open>The body of the \<^verbatim>\<open>try\<close>: \<open>Inl\<close> is an exception on its way to the handler.\<close>

definition resolve_zip_path ::
  "path \<Rightarrow> CompressionConfig \<Rightarrow> state \<Rightarrow> (pyexc + path option) \<times> state" where
  "resolve_zip_path zip_path config st =
     (if path_exists st zip_path then
        (case ConflictResolution_of (conflict_resolution config) of
           Inl e \<Rightarrow> (Inl e, st)
         | Inr SKIP \<Rightarrow> (Inr None, st)
         | Inr RENAME \<Rightarrow>
             (let (p, st') = generate_unique_name zip_path st in (Inr (Some p), st'))
         | Inr _ \<Rightarrow> (Inr (Some zip_path), st))
      else (Inr (Some zip_path), st))"

definition write_and_verify ::
  "path \<Rightarrow> FileInfo \<Rightarrow> CompressionConfig \<Rightarrow> state \<Rightarrow> (pyexc + file_result) \<times> state" where
  "write_and_verify zip_path file_info config st =
     (case zip_write zip_path (compression_level config) (path file_info) (name file_info) st of
        (Some e, st1) \<Rightarrow> (Inl e, st1)
      | (None, st1) \<Rightarrow>
          if verify_integrity config \<and> \<not> verify_zip_integrity st1 zip_path file_info then
            (case unlink zip_path st1 of
               (Some e, st2) \<Rightarrow> (Inl e, st2)
             | (None, st2) \<Rightarrow>
                 (Inr (StatusError ''Verificacion de integridad fallo''),
                  log_file_operation ''compress'' (path file_info) ''error'' 0 0
                    (Some ''Verificacion de integridad fallo'') st2))
          else
            (case lookup (nodes st1) zip_path of
               None \<Rightarrow> (Inl (PyExc OSError (''No such file: '' @ path_str zip_path)), st1)
             | Some n \<Rightarrow>
                 (Inr (StatusSuccess zip_path (size_bytes file_info) (node_size n)
                         (int (size_bytes file_info) - int (node_size n))),
                  log_file_operation ''compress'' (path file_info) ''success''
                    (size_bytes file_info) (node_size n) None st1)))"

definition compress_try ::
  "FileInfo \<Rightarrow> CompressionConfig \<Rightarrow> state \<Rightarrow> (pyexc + file_result) \<times> state" where
  "compress_try file_info config st =
     (case generate_zip_name file_info config st of
        (Inl e, st1) \<Rightarrow> (Inl e, st1)
      | (Inr zip_name, st1) \<Rightarrow>
          (case resolve_zip_path (path_join (path_parent (path file_info)) zip_name) config st1 of
             (Inl e, st2) \<Rightarrow> (Inl e, st2)
           | (Inr None, st2) \<Rightarrow>
               (Inr (StatusSkip ''ZIP ya existe''),
                log_file_operation ''compress'' (path file_info) ''skip'' 0 0
                  (Some ''Archivo ZIP ya existe'') st2)
           | (Inr (Some zip_path), st2) \<Rightarrow> write_and_verify zip_path file_info config st2))"

definition compress_single_file ::
  "FileInfo \<Rightarrow> CompressionConfig \<Rightarrow> state \<Rightarrow> file_result \<times> state" where
  "compress_single_file file_info config st =
     (case compress_try file_info config st of
        (Inr result, st') \<Rightarrow> (result, st')
      | (Inl e, st') \<Rightarrow>
          (StatusError (exc_text e),
           log_file_operation ''compress'' (path file_info) ''error'' 0 0
             (Some (exc_text e)) st'))"

subsection \<open>\<^verbatim>\<open>_process_files\<close>\<close>

record tally =
  processed :: nat
  failed :: nat
  skipped :: nat
  total_saved :: int
  errors_acc :: "string list"

definition tally0 :: tally where
  "tally0 = \<lparr>processed = 0, failed = 0, skipped = 0, total_saved = 0, errors_acc = []\<rparr>"

text \<open>
  One iteration, from \<^verbatim>\<open>try\<close> to the handler.  \<^verbatim>\<open>processed\<close> is counted before the
  conflict policy is converted, so the handler of a failed conversion counts the same
  file as failed too.
\<close>

definition process_one :: "CompressionConfig \<Rightarrow> FileInfo \<Rightarrow> tally \<times> state \<Rightarrow> tally \<times> state" where
  "process_one config file_info ts =
     (case compress_single_file file_info config (snd ts) of
        (StatusSuccess zip_path original_size compressed_size size_saved, st1) \<Rightarrow>
          (let t1 = (fst ts)\<lparr>processed := processed (fst ts) + 1,
                             total_saved := total_saved (fst ts) + size_saved\<rparr>
           in case ConflictResolution_of (conflict_resolution config) of
                Inl e \<Rightarrow>
                  (t1\<lparr>failed := failed t1 + 1,
                      errors_acc := errors_acc t1
                        @ [''Error procesando '' @ name file_info @ '': '' @ exc_text e]\<rparr>,
                   log_file_operation ''compress'' (path file_info) ''error'' 0 0
                     (Some (''Error procesando '' @ name file_info @ '': '' @ exc_text e)) st1)
              | Inr conflict_res \<Rightarrow>
                  (case move_to_backup (path file_info) (backup_folder config) conflict_res st1 of
                     (None, st2) \<Rightarrow>
                       (t1, log_operation WARNING
                              (''No se pudo mover a respaldo: '' @ name file_info) st2)
                   | (Some moved_path, st2) \<Rightarrow> (t1, st2)))
      | (StatusError error, st1) \<Rightarrow>
          ((fst ts)\<lparr>failed := failed (fst ts) + 1,
                    errors_acc := errors_acc (fst ts) @ [error]\<rparr>, st1)
      | (StatusSkip reason, st1) \<Rightarrow>
          ((fst ts)\<lparr>skipped := skipped (fst ts) + 1\<rparr>, st1))"

text \<open>
  The loop.  A set stop flag ends it; a cleared pause event blocks
  \<^verbatim>\<open>_pause_event.wait()\<close>, and with no other thread to set it the call does not
  return: \<open>None\<close>.
\<close>

fun process_loop ::
  "CompressionConfig \<Rightarrow> FileInfo list \<Rightarrow> tally \<times> state \<Rightarrow> (tally \<times> state) option" where
  "process_loop config [] ts = Some ts"
| "process_loop config (file_info # files) ts =
     (if should_stop (snd ts) then
        Some (fst ts, log_operation INFO ''Proceso detenido por el usuario'' (snd ts))
      else if \<not> pause_event (snd ts) then None
      else process_loop config files (process_one config file_info ts))"

definition tally_sum :: "tally \<Rightarrow> nat" where
  "tally_sum t = processed t + failed t + skipped t"

definition process_files_list ::
  "FileInfo list \<Rightarrow> CompressionConfig \<Rightarrow> state \<Rightarrow> (CompressionResult \<times> state) option" where
  "process_files_list files config st =
     (case process_loop config files (tally0, st) of
        None \<Rightarrow> None
      | Some (t, st1) \<Rightarrow>
          Some (\<lparr>success = (failed t = 0), processed_files = processed t,
                 failed_files = failed t, skipped_files = skipped t,
                 total_size_saved = total_saved t, errors = errors_acc t, session_id = []\<rparr>,
                if tally_sum t \<noteq> length files then
                  log_operation WARNING
                    (''Discrepancia en conteo: '' @ dec_nat (tally_sum t) @ '' procesados vs ''
                       @ dec_nat (length files) @ '' encontrados'') st1
                else st1))"

subsection \<open>\<^verbatim>\<open>compress_files\<close>, \<^verbatim>\<open>pause\<close>, \<^verbatim>\<open>resume\<close>, \<^verbatim>\<open>stop\<close>\<close>

definition start_session :: "state \<Rightarrow> string \<times> state" where
  "start_session st =
     (let (now, st1) = datetime_now st;
          sid = ''session_'' @ strftime st now ''%Y%m%d_%H%M%S'';
          (start_time, st2) = datetime_now st1
      in (sid, st2\<lparr>log_calls := log_calls st2 @ [StartSession sid]\<rparr>))"

text \<open>The \<^verbatim>\<open>finally\<close> block of \<^verbatim>\<open>compress_files\<close>.\<close>

definition finally_block :: "state \<Rightarrow> state" where
  "finally_block st = st\<lparr>is_running := False, log_calls := log_calls st @ [EndSession]\<rparr>"

definition failed_result :: "string list \<Rightarrow> string \<Rightarrow> CompressionResult" where
  "failed_result errs sid =
     \<lparr>success = False, processed_files = 0, failed_files = 0, skipped_files = 0,
      total_size_saved = 0, errors = errs, session_id = sid\<rparr>"

definition begin_run :: "state \<Rightarrow> state" where
  "begin_run st = st\<lparr>is_running := True, should_stop := False, file_counter := 1\<rparr>"

definition compress_files :: "CompressionConfig \<Rightarrow> state \<Rightarrow> (CompressionResult \<times> state) option" where
  "compress_files config st =
     (let (sid, st1) = start_session (begin_run st) in
      if validate_config st1 config \<noteq> [] then
        Some (failed_result (validate_config st1 config) sid,
              finally_block (log_operation ERROR
                (''Configuracion invalida: ''
                   @ concat (map (\<lambda>e. e @ ''; '') (butlast (validate_config st1 config)))
                   @ last (validate_config st1 config)) st1))
      else
        (let (files, st2) =
               scan_directory (source_folder config) (include_subfolders config)
                 (file_filters config)
                 (log_operation INFO
                    (''Escaneando directorio: '' @ path_str (source_folder config)) st1)
         in if files = [] then
              Some (\<lparr>success = True, processed_files = 0, failed_files = 0, skipped_files = 0,
                     total_size_saved = 0, errors = [], session_id = sid\<rparr>,
                    finally_block (log_operation WARNING
                      ''No se encontraron archivos para procesar'' st2))
            else
              (case create_backup_folder (backup_folder config)
                      (log_operation INFO
                         (''Encontrados '' @ dec_nat (length files) @ '' archivos en ''
                            @ path_str (source_folder config))
                         (st2\<lparr>log_calls := log_calls st2
                                @ [UpdateSessionStats (length files)]\<rparr>)) of
                 (False, st3) \<Rightarrow>
                   Some (failed_result
                           [''No se pudo crear carpeta de respaldo: ''
                              @ path_str (backup_folder config)] sid,
                         finally_block (log_operation ERROR
                           (''No se pudo crear carpeta de respaldo: ''
                              @ path_str (backup_folder config)) st3))
               | (True, st3) \<Rightarrow>
                   (case process_files_list files config st3 of
                      None \<Rightarrow> None
                    | Some (result, st4) \<Rightarrow>
                        Some (result\<lparr>session_id := sid\<rparr>,
                              finally_block (log_operation INFO
                                (''Proceso completado: '' @ dec_nat (processed_files result)
                                   @ '' exitos, '' @ dec_nat (failed_files result)
                                   @ '' errores'') st4))))))"

definition pause :: "state \<Rightarrow> state" where
  "pause st =
     (if is_running st then
        log_operation INFO ''Proceso pausado'' (st\<lparr>is_paused := True, pause_event := False\<rparr>)
      else st)"

definition resume :: "state \<Rightarrow> state" where
  "resume st =
     (if is_running st \<and> is_paused st then
        log_operation INFO ''Proceso reanudado'' (st\<lparr>is_paused := False, pause_event := True\<rparr>)
      else st)"

definition stop :: "state \<Rightarrow> state" where
  "stop st =
     (if is_running st then
        log_operation INFO ''Deteniendo proceso...'' (st\<lparr>should_stop := True, pause_event := True\<rparr>)
      else st)"

section \<open>Observations and an example\<close>

text \<open>
  What a step may change is the log, the file system, the clock's position and the
  list of backup operations; \<open>frame\<close> forgets these, so that two states with one frame
  agree on the engine's flags and counter, the pattern table, the permissions and the
  library.
\<close>

definition frame :: "state \<Rightarrow> state" where
  "frame st = st\<lparr>log_calls := [], nodes := [], ticks := 0, backup_operations := []\<rparr>"

text \<open>\<open>static\<close> forgets the naming counter as well.\<close>

definition static :: "state \<Rightarrow> state" where
  "static st = (frame st)\<lparr>file_counter := 0\<rparr>"


fun tally_trace :: "CompressionConfig \<Rightarrow> FileInfo list \<Rightarrow> tally \<times> state \<Rightarrow> nat list" where
  "tally_trace config [] ts = []"
| "tally_trace config (file_info # files) ts =
     (if should_stop (snd ts) \<or> \<not> pause_event (snd ts) then []
      else tally_sum (fst (process_one config file_info ts))
             # tally_trace config files (process_one config file_info ts))"

definition run_counts ::
  "(CompressionResult \<times> state) option \<Rightarrow> (bool \<times> nat \<times> nat \<times> nat) option" where
  "run_counts r =
     (case r of
        None \<Rightarrow> None
      | Some (res, st) \<Rightarrow>
          Some (success res, processed_files res, failed_files res, skipped_files res))"

definition run_errors :: "(CompressionResult \<times> state) option \<Rightarrow> string list" where
  "run_errors r = (case r of None \<Rightarrow> [] | Some (res, st) \<Rightarrow> errors res)"

definition run_nodes :: "(CompressionResult \<times> state) option \<Rightarrow> fs" where
  "run_nodes r = (case r of None \<Rightarrow> [] | Some (res, st) \<Rightarrow> nodes st)"

text \<open>
  The pattern table of \<^verbatim>\<open>ConfigManager._create_default_config\<close>, and a small world:
  a source folder with one file, and a backup folder that already holds two files.
\<close>

definition default_patterns :: "(string \<times> string) list" where
  "default_patterns =
     [(''fecha_archivo'', ''{fecha}_{nombre_original}''),
      (''archivo_fecha'', ''{nombre_original}_{fecha}''),
      (''contador_archivo'', ''{contador:03d}_{nombre_original}''),
      (''timestamp_archivo'', ''{timestamp}_{nombre_original}''),
      (''nombre_original'', ''{nombre_original}''),
      (''personalizado'', ''{fecha_archivo}'')]"

definition example_clock :: "nat \<Rightarrow> string \<Rightarrow> string" where
  "example_clock k fmt =
     (if fmt = ''%Y-%m-%d'' then ''2024-05-17''
      else if fmt = ''%Y%m%d'' then ''20240517''
      else if fmt = ''%H-%M-%S'' then ''10-30-00''
      else ''20240517_103000'')"

definition example_format :: "pyval \<Rightarrow> string \<Rightarrow> char option \<Rightarrow> string \<Rightarrow> pyexc + string" where
  "example_format v accessors conv spec =
     (case v of
        PInt i \<Rightarrow>
          if accessors = [] \<and> conv = None \<and> spec = ''03d'' \<and> 0 \<le> i then
            Inr (replicate (3 - length (dec_nat (nat i))) CHR ''0'' @ dec_nat (nat i))
          else Inl (PyExc ValueError ''Invalid format specifier'')
      | PStr s \<Rightarrow> Inl (PyExc ValueError ''Invalid format specifier''))"

definition example_state :: state where
  "example_state =
     \<lparr>is_running = False, is_paused = False, should_stop = False, pause_event = True,
      file_counter = 1, naming_patterns = default_patterns, backup_operations = [],
      log_calls = [],
      nodes = [([''src''], Dir), ([''src'', ''a.txt''], Plain 1000),
               ([''bak''], Dir), ([''bak'', ''a.txt''], Plain 7),
               ([''bak'', ''a_1.txt''], Plain 7)],
      can_read = (\<lambda>p. True), can_write = (\<lambda>p. True),
      ticks = 0, clock = example_clock, fnmatch = (\<lambda>n p. False),
      format_value = example_format, zip_bytes = (\<lambda>l p. 120)\<rparr>"

definition example_config :: CompressionConfig where
  "example_config =
     \<lparr>source_folder = [''src''], backup_folder = [''bak''],
      naming_pattern = ''nombre_original'', include_subfolders = False,
      file_filters = [''*''], compression_level = 6, conflict_resolution = ''rename'',
      verify_integrity = True, max_workers = 4, custom_pattern = []\<rparr>"


section \<open>Frame lemmas\<close>

lemma frame_log_operation [simp]: "frame (log_operation l m st) = frame st"
  by (simp add: frame_def log_operation_def)

lemma frame_log_file_operation [simp]: "frame (log_file_operation a b c d e f st) = frame st"
  by (simp add: frame_def log_file_operation_def)

lemma frame_updates [simp]:
  "frame (st\<lparr>log_calls := l\<rparr>) = frame st"
  "frame (st\<lparr>nodes := n\<rparr>) = frame st"
  "frame (st\<lparr>ticks := k\<rparr>) = frame st"
  "frame (st\<lparr>backup_operations := b\<rparr>) = frame st"
  by (simp_all add: frame_def)

lemma frame_sel [simp]:
  "should_stop (frame a) = should_stop a"
  "pause_event (frame a) = pause_event a"
  "file_counter (frame a) = file_counter a"
  "naming_patterns (frame a) = naming_patterns a"
  "format_value (frame a) = format_value a"
  "clock (frame a) = clock a"
  "is_running (frame a) = is_running a"
  "is_paused (frame a) = is_paused a"
  "can_read (frame a) = can_read a"
  "can_write (frame a) = can_write a"
  by (simp_all add: frame_def)

lemma frame_fields:
  assumes "frame a = frame b"
  shows "should_stop a = should_stop b" "pause_event a = pause_event b"
    "file_counter a = file_counter b" "naming_patterns a = naming_patterns b"
    "format_value a = format_value b" "clock a = clock b"
    "is_running a = is_running b" "is_paused a = is_paused b"
    "can_read a = can_read b" "can_write a = can_write b"
  using assms by (metis frame_sel)+

lemma frame_datetime_now [simp]: "frame (snd (datetime_now st)) = frame st"
  by (simp add: datetime_now_def)

lemma frame_unique_loop [simp]: "frame (snd (unique_loop p c st)) = frame st"
proof (induction p c st rule: unique_loop.induct)
  case (1 p c st)
  then show ?case
    by (subst unique_loop.simps) (simp add: datetime_now_def)
qed

lemma frame_generate_unique_name [simp]: "frame (snd (generate_unique_name p st)) = frame st"
  by (simp add: generate_unique_name_def)

lemma frame_resolve_conflict [simp]: "frame (snd (resolve_conflict d pol st)) = frame st"
  by (cases pol) (simp_all add: split_def Let_def)

lemma frame_mkdir_parents [simp]: "frame (snd (mkdir_parents p st)) = frame st"
proof (induction p st rule: mkdir_parents.induct)
  case (1 p st)
  show ?case
    by (subst mkdir_parents.simps) (use 1 in \<open>auto split: option.splits node.splits prod.splits\<close>)
qed

lemma frame_create_backup_folder [simp]: "frame (snd (create_backup_folder p st)) = frame st"
proof -
  obtain r s where m: "mkdir_parents p st = (r, s)" by fastforce
  with frame_mkdir_parents[of p st] have "frame s = frame st" by simp
  then show ?thesis
    by (cases r) (simp_all add: create_backup_folder_def m)
qed

lemma frame_shutil_move [simp]: "frame (snd (shutil_move a b st)) = frame st"
  by (simp add: shutil_move_def Let_def)

lemma frame_move_to_backup [simp]: "frame (snd (move_to_backup a b pol st)) = frame st"
proof (cases "path_exists st a")
  case False
  then show ?thesis by (simp add: move_to_backup_def)
next
  case True
  obtain ok s1 where c: "create_backup_folder b st = (ok, s1)" by fastforce
  with frame_create_backup_folder[of b st] have f1: "frame s1 = frame st" by simp
  show ?thesis
  proof (cases ok)
    case False
    with True c f1 show ?thesis by (simp add: move_to_backup_def)
  next
    case ok: True
    define rs where "rs = (if path_exists s1 (path_join b (path_name a))
                     then resolve_conflict (path_join b (path_name a)) pol s1
                     else (Some (path_join b (path_name a)), s1))"
    obtain r s2 where rs: "rs = (r, s2)" by fastforce
    have "frame (snd rs) = frame s1"
      unfolding rs_def by simp
    with rs f1 have f2: "frame s2 = frame st" by simp
    show ?thesis
    proof (cases r)
      case None
      with True c ok rs f2 show ?thesis
        by (simp add: move_to_backup_def Let_def rs_def[symmetric])
    next
      case (Some d)
      obtain e s3 where m: "shutil_move a d s2 = (e, s3)" by fastforce
      with frame_shutil_move[of a d s2] f2 have "frame s3 = frame st" by simp
      with True c ok rs Some m show ?thesis
        by (cases e) (simp_all add: move_to_backup_def Let_def rs_def[symmetric])
    qed
  qed
qed

lemma frame_zip_write [simp]: "frame (snd (zip_write z l s a st)) = frame st"
  by (simp add: zip_write_def Let_def split: option.splits node.splits)

lemma frame_unlink [simp]: "frame (snd (unlink p st)) = frame st"
  by (simp add: unlink_def)

lemma frame_write_and_verify [simp]: "frame (snd (write_and_verify z fi cfg st)) = frame st"
proof -
  obtain e s1 where w: "zip_write z (compression_level cfg) (path fi) (name fi) st = (e, s1)"
    by fastforce
  with frame_zip_write[of z "compression_level cfg" "path fi" "name fi" st]
  have f1: "frame s1 = frame st" by simp
  obtain e2 s2 where u: "unlink z s1 = (e2, s2)" by fastforce
  with frame_unlink[of z s1] f1 have f2: "frame s2 = frame st" by simp
  show ?thesis
    using w u f1 f2
    by (cases e; cases e2) (simp_all add: write_and_verify_def split: option.splits)
qed

lemma frame_resolve_zip_path [simp]: "frame (snd (resolve_zip_path z cfg st)) = frame st"
  by (simp add: resolve_zip_path_def split_def Let_def split: sum.splits ConflictResolution.splits)

lemma frame_compress_try:
  "frame (snd (compress_try fi cfg st)) = frame (snd (generate_zip_name fi cfg st))"
proof -
  obtain r s1 where g: "generate_zip_name fi cfg st = (r, s1)" by fastforce
  show ?thesis
  proof (cases r)
    case (Inl e)
    with g show ?thesis by (simp add: compress_try_def)
  next
    case (Inr zn)
    obtain r2 s2 where z: "resolve_zip_path (path_join (path_parent (path fi)) zn) cfg s1 = (r2, s2)"
      by fastforce
    with frame_resolve_zip_path[of "path_join (path_parent (path fi)) zn" cfg s1]
    have f2: "frame s2 = frame s1" by simp
    show ?thesis
    proof (cases r2)
      case (Inl e)
      with g Inr z f2 show ?thesis by (simp add: compress_try_def)
    next
      case r2: (Inr po)
      show ?thesis
      proof (cases po)
        case None
        with g Inr z r2 f2 show ?thesis by (simp add: compress_try_def)
      next
        case (Some zp)
        with g Inr z r2 f2 show ?thesis by (simp add: compress_try_def)
      qed
    qed
  qed
qed

lemma frame_compress_single_file:
  "frame (snd (compress_single_file fi cfg st)) = frame (snd (generate_zip_name fi cfg st))"
proof -
  obtain r s1 where c: "compress_try fi cfg st = (r, s1)" by fastforce
  with frame_compress_try[of fi cfg st]
  have "frame s1 = frame (snd (generate_zip_name fi cfg st))" by simp
  with c show ?thesis
    by (cases r) (simp_all add: compress_single_file_def)
qed

lemma frame_process_one:
  "frame (snd (process_one cfg fi ts)) = frame (snd (generate_zip_name fi cfg (snd ts)))"
proof -
  obtain r s1 where c: "compress_single_file fi cfg (snd ts) = (r, s1)" by fastforce
  with frame_compress_single_file[of fi cfg "snd ts"]
  have f1: "frame s1 = frame (snd (generate_zip_name fi cfg (snd ts)))"
    by simp
  show ?thesis
  proof (cases r)
    case (StatusSuccess zp os cs sv)
    show ?thesis
    proof (cases "ConflictResolution_of (conflict_resolution cfg)")
      case (Inl e)
      with c StatusSuccess f1 show ?thesis
        by (simp add: process_one_def Let_def)
    next
      case (Inr pol)
      obtain m s2 where mv: "move_to_backup (path fi) (backup_folder cfg) pol s1 = (m, s2)"
        by fastforce
      with frame_move_to_backup[of "path fi" "backup_folder cfg" pol s1] f1
      have "frame s2 = frame (snd (generate_zip_name fi cfg (snd ts)))" by simp
      with c StatusSuccess Inr mv show ?thesis
        by (cases m) (simp_all add: process_one_def Let_def)
    qed
  next
    case (StatusError e)
    with c f1 show ?thesis by (simp add: process_one_def)
  next
    case (StatusSkip e)
    with c f1 show ?thesis by (simp add: process_one_def)
  qed
qed

lemma static_frame: "frame a = frame b \<Longrightarrow> static a = static b"
  by (simp add: static_def)

lemma static_sel [simp]:
  "should_stop (static a) = should_stop a"
  "pause_event (static a) = pause_event a"
  "naming_patterns (static a) = naming_patterns a"
  "format_value (static a) = format_value a"
  "clock (static a) = clock a"
  by (simp_all add: static_def)

lemma static_fields:
  assumes "static a = static b"
  shows "should_stop a = should_stop b" "pause_event a = pause_event b"
    "naming_patterns a = naming_patterns b" "format_value a = format_value b"
    "clock a = clock b"
  using assms by (metis static_sel)+

lemma static_generate_zip_name [simp]: "static (snd (generate_zip_name fi cfg st)) = static st"
  by (simp add: generate_zip_name_def datetime_now_def static_def frame_def log_operation_def
      split: sum.splits)

lemma static_process_one [simp]: "static (snd (process_one cfg fi ts)) = static (snd ts)"
  using static_frame[OF frame_process_one[of cfg fi ts]] by simp

section \<open>Counting in the loop\<close>

lemma process_one_counts:
  assumes "ConflictResolution_of (conflict_resolution cfg) = Inr pol"
  shows "tally_sum (fst (process_one cfg fi ts)) = tally_sum (fst ts) + 1"
proof -
  obtain r s1 where c: "compress_single_file fi cfg (snd ts) = (r, s1)" by fastforce
  show ?thesis
  proof (cases r)
    case (StatusSuccess zp os cs sv)
    obtain m s2 where mv: "move_to_backup (path fi) (backup_folder cfg) pol s1 = (m, s2)"
      by fastforce
    with c StatusSuccess assms show ?thesis
      by (cases m) (simp_all add: process_one_def Let_def tally_sum_def)
  next
    case (StatusError e)
    with c show ?thesis by (simp add: process_one_def tally_sum_def)
  next
    case (StatusSkip e)
    with c show ?thesis by (simp add: process_one_def tally_sum_def)
  qed
qed

lemma process_loop_returns:
  assumes "\<not> should_stop (snd ts)" "pause_event (snd ts)"
  shows "\<exists>r. process_loop cfg files ts = Some r"
  using assms
proof (induction files arbitrary: ts)
  case Nil
  then show ?case by simp
next
  case (Cons fi files)
  have "should_stop (snd (process_one cfg fi ts)) = should_stop (snd ts)"
       "pause_event (snd (process_one cfg fi ts)) = pause_event (snd ts)"
    by (rule static_fields[OF static_process_one])+
  with Cons show ?case by simp
qed

lemma process_loop_counts:
  assumes "ConflictResolution_of (conflict_resolution cfg) = Inr pol"
    and "\<not> should_stop (snd ts)"
    and "process_loop cfg files ts = Some r"
  shows "tally_sum (fst r) = tally_sum (fst ts) + length files"
  using assms(2,3)
proof (induction files arbitrary: ts)
  case Nil
  then show ?case by simp
next
  case (Cons fi files)
  have s: "should_stop (snd (process_one cfg fi ts)) = should_stop (snd ts)"
    by (rule static_fields[OF static_process_one])
  from Cons.prems have "process_loop cfg files (process_one cfg fi ts) = Some r"
    by (simp split: if_splits)
  with Cons.IH[of "process_one cfg fi ts"] s Cons.prems(1)
  have "tally_sum (fst r) = tally_sum (fst (process_one cfg fi ts)) + length files" by simp
  with process_one_counts[OF assms(1), of fi ts] show ?case by simp
qed

lemma tally_trace_counts:
  assumes "ConflictResolution_of (conflict_resolution cfg) = Inr pol"
    and "\<not> should_stop (snd ts)" "pause_event (snd ts)"
  shows "length (tally_trace cfg files ts) = length files
       \<and> (\<forall>k < length files. tally_trace cfg files ts ! k = tally_sum (fst ts) + Suc k)"
  using assms(2,3)
proof (induction files arbitrary: ts)
  case Nil
  then show ?case by simp
next
  case (Cons fi files)
  have "should_stop (snd (process_one cfg fi ts)) = should_stop (snd ts)"
       "pause_event (snd (process_one cfg fi ts)) = pause_event (snd ts)"
    by (rule static_fields[OF static_process_one])+
  with Cons.prems have
    ih: "length (tally_trace cfg files (process_one cfg fi ts)) = length files
       \<and> (\<forall>k < length files. tally_trace cfg files (process_one cfg fi ts) ! k
             = tally_sum (fst (process_one cfg fi ts)) + Suc k)"
    using Cons.IH[of "process_one cfg fi ts"] by simp
  note one = process_one_counts[OF assms(1), of fi ts]
  show ?case
  proof (intro conjI allI impI)
    show "length (tally_trace cfg (fi # files) ts) = length (fi # files)"
      using ih Cons.prems by simp
  next
    fix k assume "k < length (fi # files)"
    then show "tally_trace cfg (fi # files) ts ! k = tally_sum (fst ts) + Suc k"
      using ih one Cons.prems by (cases k) simp_all
  qed
qed

section \<open>The conflict resolver\<close>

lemma unique_loop_nodes: "nodes (snd (unique_loop p c st)) = nodes st"
proof (induction p c st rule: unique_loop.induct)
  case (1 p c st)
  then show ?case
    by (subst unique_loop.simps) (simp add: datetime_now_def)
qed





section \<open>The naming counter\<close>









section \<open>Relocation\<close>

lemma map_of_filter_neq: "q \<noteq> p \<Longrightarrow> map_of (filter (\<lambda>e. fst e \<noteq> p) f) q = map_of f q"
  by (induction f) auto

lemma map_of_filter_eq: "map_of (filter (\<lambda>e. fst e \<noteq> p) f) p = None"
  by (induction f) auto


lemma lookup_fs_del:
  "lookup (fs_del f p) q = (if q = p \<and> p \<noteq> [] then None else lookup f q)"
  by (auto simp: lookup_def fs_del_def map_of_filter_neq map_of_filter_eq)


lemma nodes_log_operation [simp]: "nodes (log_operation l m st) = nodes st"
  by (simp add: log_operation_def)

lemma nodes_log_file_operation [simp]: "nodes (log_file_operation a b c d e f st) = nodes st"
  by (simp add: log_file_operation_def)


lemma nodes_resolve_conflict [simp]: "nodes (snd (resolve_conflict d pol st)) = nodes st"
  by (cases pol) (simp_all add: split_def Let_def generate_unique_name_def unique_loop_nodes)









section \<open>Validation, the counter reset and the empty scan\<close>

lemma process_files_cong:
  assumes "nodes a = nodes b" "can_read a = can_read b" "can_write a = can_write b"
    "fnmatch a = fnmatch b"
  shows "process_files d a i f p acc = process_files d b i f p acc"
proof (induction d arbitrary: p acc i)
  case 0
  show ?case by simp
next
  case (Suc d)
  have e: "path_is_file a = path_is_file b" "path_is_dir a = path_is_dir b"
    "matches_filters a = matches_filters b" "from_path a = from_path b"
    by (simp_all add: fun_eq_iff path_is_file_def path_exists_def path_is_dir_def
        matches_filters_def from_path_def assms split: option.splits)
  show ?case
    by (simp add: Suc e assms Let_def cong: if_cong)
qed

lemma scan_files_cong:
  assumes "nodes a = nodes b" "can_read a = can_read b" "can_write a = can_write b"
    "fnmatch a = fnmatch b"
  shows "scan_files a d i f = scan_files b d i f"
  using process_files_cong[OF assms] assms(1) by (simp add: scan_files_def)

lemma nodes_scan_directory [simp]: "nodes (snd (scan_directory d i f st)) = nodes st"
  by (simp add: scan_directory_def split_def Let_def)

lemma backup_operations_scan_directory [simp]:
  "backup_operations (snd (scan_directory d i f st)) = backup_operations st"
  by (simp add: scan_directory_def split_def Let_def log_operation_def)

lemma backup_operations_log_operation [simp]:
  "backup_operations (log_operation l m st) = backup_operations st"
  by (simp add: log_operation_def)

lemma frame_scan_directory [simp]: "frame (snd (scan_directory d i f st)) = frame st"
  by (simp add: scan_directory_def split_def Let_def)

lemma frame_start_session [simp]: "frame (snd (start_session st)) = frame st"
  by (simp add: start_session_def split_def Let_def datetime_now_def)

lemma nodes_start_session [simp]: "nodes (snd (start_session st)) = nodes st"
  by (simp add: start_session_def split_def Let_def datetime_now_def)

lemma backup_operations_start_session [simp]:
  "backup_operations (snd (start_session st)) = backup_operations st"
  by (simp add: start_session_def split_def Let_def datetime_now_def)

lemma validate_config_cong:
  "nodes a = nodes b \<Longrightarrow> can_read a = can_read b \<Longrightarrow> naming_patterns a = naming_patterns b \<Longrightarrow>
   validate_config a cfg = validate_config b cfg"
  by (simp add: validate_config_def path_exists_def path_is_dir_def readable_def)

lemma validate_config_started [simp]:
  "validate_config (snd (start_session (begin_run st))) config = validate_config st config"
proof -
  have "frame (snd (start_session (begin_run st))) = frame (begin_run st)" by simp
  then have "can_read (snd (start_session (begin_run st))) = can_read (begin_run st)"
    "naming_patterns (snd (start_session (begin_run st))) = naming_patterns (begin_run st)"
    by (rule frame_fields)+
  then show ?thesis
    by (intro validate_config_cong) (simp_all add: begin_run_def)
qed





text \<open>
  C10.  When the configuration passes validation and the scan finds no file,
  \<^verbatim>\<open>compress_files\<close> returns success with all counters zero, nothing saved and no
  errors, and it changes neither the file system (the backup folder is not created)
  nor the list of backup operations.
\<close>

theorem empty_scan_succeeds:
  assumes "validate_config st config = []"
    and "fst (scan_files st (source_folder config) (include_subfolders config)
                (file_filters config)) = []"
  shows "\<exists>sid st'. compress_files config st
            = Some (\<lparr>success = True, processed_files = 0, failed_files = 0, skipped_files = 0,
                     total_size_saved = 0, errors = [], session_id = sid\<rparr>, st')
          \<and> nodes st' = nodes st
          \<and> backup_operations st' = backup_operations st"
proof -
  define s1 where "s1 = log_operation INFO (''Escaneando directorio: '' @ path_str (source_folder config))
                   (snd (start_session (begin_run st)))"
  have fr: "frame s1 = frame (begin_run st)" by (simp add: s1_def)
  have n1: "nodes s1 = nodes st" "backup_operations s1 = backup_operations st"
    by (simp_all add: s1_def begin_run_def log_operation_def)
  have v: "can_read s1 = can_read st" "can_write s1 = can_write st"
    using frame_fields(9,10)[OF fr] by (simp_all add: begin_run_def)
  have fm: "fnmatch s1 = fnmatch st"
    by (simp add: s1_def log_operation_def start_session_def split_def Let_def datetime_now_def
        begin_run_def)
  have "scan_files s1 (source_folder config) (include_subfolders config) (file_filters config)
      = scan_files st (source_folder config) (include_subfolders config) (file_filters config)"
    by (rule scan_files_cong) (simp_all add: n1 v fm)
  with assms(2) have e: "fst (scan_directory (source_folder config) (include_subfolders config)
                (file_filters config) s1) = []"
    by (simp add: scan_directory_def split_def Let_def)
  have k: "nodes (snd (scan_directory (source_folder config) (include_subfolders config)
                (file_filters config) s1)) = nodes st"
      "backup_operations (snd (scan_directory (source_folder config) (include_subfolders config)
                (file_filters config) s1)) = backup_operations st"
    using n1 by simp_all
  show ?thesis
    unfolding compress_files_def split_def Let_def
    unfolding s1_def[symmetric]
    using assms(1) e k
    by (simp add: finally_block_def)
qed

theorem empty_scan_succeeds_witness:
  "validate_config example_state (example_config\<lparr>file_filters := [''*.pdf'']\<rparr>) = []
   \<and> fst (scan_files example_state [''src''] False [''*.pdf'']) = []
   \<and> run_counts (compress_files (example_config\<lparr>file_filters := [''*.pdf'']\<rparr>) example_state)
       = Some (True, 0, 0, 0)
   \<and> run_errors (compress_files (example_config\<lparr>file_filters := [''*.pdf'']\<rparr>) example_state) = []
   \<and> run_nodes (compress_files (example_config\<lparr>file_filters := [''*.pdf'']\<rparr>) example_state)
       = nodes example_state"
proof -
  let ?cfg = "example_config\<lparr>file_filters := [''*.pdf'']\<rparr>"
  have v: "validate_config example_state ?cfg = []"
    by code_simp
  have e: "fst (scan_files example_state (source_folder ?cfg) (include_subfolders ?cfg)
                (file_filters ?cfg)) = []"
    by code_simp
  have e': "fst (scan_files example_state [''src''] False [''*.pdf'']) = []"
    by code_simp
  from empty_scan_succeeds[OF v e] obtain sid st' where
    "compress_files ?cfg example_state
            = Some (\<lparr>success = True, processed_files = 0, failed_files = 0, skipped_files = 0,
                     total_size_saved = 0, errors = [], session_id = sid\<rparr>, st')"
    "nodes st' = nodes example_state"
    by blast
  with v e' show ?thesis
    by (simp add: run_counts_def run_nodes_def run_errors_def)
qed


section \<open>Where the code departs from the specification\<close>

text \<open>
  C3.  A malformed template is not absorbed: for the custom pattern \<^verbatim>\<open>{fecha}{\<close>, for
  every file and in every state, \<^verbatim>\<open>str.format\<close> raises \<^verbatim>\<open>ValueError\<close>, the handler of
  \<^verbatim>\<open>_generate_zip_name\<close> catches \<^verbatim>\<open>KeyError\<close> only, and the exception leaves the
  function: no fallback name is returned and no warning is logged.
\<close>

theorem malformed_pattern_raises:
  "generate_zip_name fi (config\<lparr>naming_pattern := ''personalizado'', custom_pattern := ''{fecha}{''\<rparr>) st
     = (Inl (PyExc ValueError ''Single { encountered in format string''),
        st\<lparr>ticks := Suc (ticks st)\<rparr>)"
  by (simp add: generate_zip_name_def select_pattern_def datetime_now_def py_format_def
      numeral_2_eq_2 name_step_def render_field_def get_field_object_def is_digit_def
      variables_def bad_def)

text \<open>
  C2.  A source file named \<^verbatim>\<open>a.zip\<close> under the pattern \<^verbatim>\<open>{nombre_original}\<close> and the
  policy \<open>overwrite\<close>: the archive path is the path of the source itself.  Opening
  the archive truncates the source, verification fails on the size, and the archive
  that is deleted is the source file: after the run it is gone.
\<close>

theorem failed_verification_removes_source:
  "lookup (nodes (example_state\<lparr>nodes := [([''src''], Dir), ([''src'', ''a.zip''], Plain 5)]\<rparr>))
       [''src'', ''a.zip''] = Some (Plain 5)
   \<and> run_counts (compress_files (example_config\<lparr>conflict_resolution := ''overwrite''\<rparr>)
        (example_state\<lparr>nodes := [([''src''], Dir), ([''src'', ''a.zip''], Plain 5)]\<rparr>))
       = Some (False, 0, 1, 0)
   \<and> run_errors (compress_files (example_config\<lparr>conflict_resolution := ''overwrite''\<rparr>)
        (example_state\<lparr>nodes := [([''src''], Dir), ([''src'', ''a.zip''], Plain 5)]\<rparr>))
       = [''Verificacion de integridad fallo'']
   \<and> lookup (run_nodes (compress_files (example_config\<lparr>conflict_resolution := ''overwrite''\<rparr>)
        (example_state\<lparr>nodes := [([''src''], Dir), ([''src'', ''a.zip''], Plain 5)]\<rparr>)))
       [''src'', ''a.zip''] = None"
  by code_simp




text \<open>
  An unknown conflict policy is not rejected by validation; a file whose archive was
  written is then counted as processed and, when the policy is converted, as failed.
\<close>

lemma invalid_policy_counted_twice:
  "validate_config example_state (example_config\<lparr>conflict_resolution := ''bogus''\<rparr>) = []
   \<and> map name (fst (scan_directory [''src''] False [''*''] example_state)) = [''a.txt'']
   \<and> run_counts (compress_files (example_config\<lparr>conflict_resolution := ''bogus''\<rparr>) example_state)
       = Some (False, 1, 1, 0)"
  by code_simp

end
